theory Spec2Isabelle
  imports Main "HOL-Library.Sublist"
begin

section \<open>Python values and library functions used by \<open>main.py\<close>\<close>

text \<open>
  Exceptions are values: the subclasses of \<open>Exception\<close>, which is what the handlers of
  \<open>main.py\<close> catch. The handlers tell \<open>json.JSONDecodeError\<close> from every other
  \<open>Exception\<close>; \<open>AttributeError\<close> is what \<open>.get\<close> raises on a value that is not a dict.
  The string is \<open>str(e)\<close>, which the log messages interpolate.
\<close>

datatype exn = JSONDecodeError string | AttributeError string | OtherError string

fun exn_str :: "exn \<Rightarrow> string" where
  "exn_str (JSONDecodeError m) = m"
| "exn_str (AttributeError m) = m"
| "exn_str (OtherError m) = m"

text \<open>
  The values \<open>json.loads\<close> returns. Numbers are kept as integers: no branch of the
  program looks inside a number. An object is the list of the dict's items.
\<close>

datatype json =
    JNull
  | JBool bool
  | JNum int
  | JStr string
  | JArr "json list"
  | JObj "(string \<times> json) list"

text \<open>\<open>d.get(key, default)\<close>: a lookup on a dict, \<open>AttributeError\<close> on anything else.\<close>

definition py_get :: "json \<Rightarrow> string \<Rightarrow> json \<Rightarrow> exn + json" where
  "py_get j k d =
     (case j of
        JObj kvs \<Rightarrow> Inr (case map_of kvs k of None \<Rightarrow> d | Some v \<Rightarrow> v)
      | _ \<Rightarrow> Inl (AttributeError ''object has no attribute 'get' ''))"

text \<open>Truthiness of \<open>None\<close>-or-string values (\<open>if not bucket_name\<close>, \<open>if not filename\<close>).\<close>

definition truthy :: "string option \<Rightarrow> bool" where
  "truthy s = (case s of None \<Rightarrow> False | Some v \<Rightarrow> v \<noteq> [])"

text \<open>
  \<open>s.replace(old, new)\<close> for a non-empty \<open>old\<close> (both call sites pass a literal):
  leftmost occurrences, not overlapping.
\<close>

function py_replace :: "string \<Rightarrow> string \<Rightarrow> string \<Rightarrow> string" where
  "py_replace old new [] = []"
| "py_replace old new (c # cs) =
     (if old \<noteq> [] \<and> prefix old (c # cs)
      then new @ py_replace old new (drop (length old) (c # cs))
      else c # py_replace old new cs)"
  by pat_completeness auto
termination
  by (relation "measure (\<lambda>(old, new, s). length s)") auto

text \<open>
  \<open>s.strip()\<close>. A \<open>char\<close> stands for a code point below 256, and the whitespace is all of
  what \<open>str.isspace\<close> accepts in that range: the ASCII whitespace and separators, U+0085
  and U+00A0.
\<close>

definition py_isspace :: "char \<Rightarrow> bool" where
  "py_isspace c = (of_char c \<in> {9, 10, 11, 12, 13, 28, 29, 30, 31, 32, 133, 160 :: nat})"

definition py_strip :: "string \<Rightarrow> string" where
  "py_strip s = rev (dropWhile py_isspace (rev (dropWhile py_isspace s)))"

text \<open>\<open>p.rfind(c)\<close>: the index of the last \<open>c\<close>, or \<open>-1\<close>.\<close>

definition rfind :: "char \<Rightarrow> string \<Rightarrow> int" where
  "rfind c p = int (length p) - 1 - int (length (takeWhile (\<lambda>x. x \<noteq> c) (rev p)))"

text \<open>
  \<open>os.path.splitext(p)[0]\<close> on POSIX: the extension starts at the last dot, when that dot
  comes after the last slash and is not one of the leading dots of the file name.
\<close>

definition splitext_root :: "string \<Rightarrow> string" where
  "splitext_root p =
     (let sepIndex = rfind (CHR ''/'') p;
          dotIndex = rfind (CHR ''.'') p
      in if dotIndex > sepIndex \<and>
            list_ex (\<lambda>c. c \<noteq> CHR ''.'')
              (take (nat (dotIndex - (sepIndex + 1))) (drop (nat (sepIndex + 1)) p))
         then take (nat dotIndex) p
         else p)"

text \<open>\<open>os.path.join(a, b)\<close> on POSIX, for the two-argument calls of the program.\<close>

definition path_join :: "string \<Rightarrow> string \<Rightarrow> string" where
  "path_join a b =
     (if prefix ''/'' b then b
      else if a = [] \<or> suffix ''/'' a then a @ b
      else a @ ''/'' @ b)"

section \<open>The world outside the process\<close>

text \<open>
  The local file system holds regular files under \<open>fs\<close> and the paths of its directories in
  \<open>dirs\<close>; the object store holds, for each bucket name handed to the client, the objects
  under their keys; \<open>environ\<close> is \<open>os.environ\<close>
  and \<open>genai_api_key\<close> the key given to \<open>genai.configure\<close>. The trace records what the
  process did to the outside: its log lines, and one event for each call that reaches an
  external service or creates a local file.
\<close>

datatype level = DEBUG | INFO | ERROR

datatype event =
    Log level string
  | FsWrite string
  | GenaiUploadFile string
  | GenaiSendMessage
  | GcsUpload "string option" string bool
  | SecretAccess string
  | StorageClientCreated

record world =
  fs :: "string \<rightharpoonup> string"
  dirs :: "string set"
  gcs :: "string option \<Rightarrow> (string \<rightharpoonup> string)"
  environ :: "string \<rightharpoonup> string"
  genai_api_key :: "string option"
  trace :: "event list"

definition emit :: "event \<Rightarrow> world \<Rightarrow> world" where
  "emit e w = w\<lparr>trace := trace w @ [e]\<rparr>"

definition logging :: "level \<Rightarrow> string \<Rightarrow> world \<Rightarrow> world" where
  "logging l m w = emit (Log l m) w"

text \<open>
  What a write to a local file did: it completed, or it raised, leaving either nothing
  new or a file with the part written so far.
\<close>

datatype write_outcome = Written | WriteFailed exn "string option"

text \<open>
  The behaviour of the external services and libraries during one request. Each field
  answers one call of \<open>main.py\<close>: \<open>None\<close> or \<open>Inr\<close> when the call returns, the exception
  when it raises. \<open>remove_fault\<close> is what \<open>os.remove\<close> raises for the path of a regular
  file. What the storage client does with an unset bucket name is the library's own
  behaviour and comes from the environment like every other answer of the client
  (\<open>meta_exists_fault\<close> for the existence check of \<open>view_image\<close>).
\<close>

record env =
  make_model :: "exn option"
  upload_file :: "string \<Rightarrow> exn + string"
  start_chat :: "exn option"
  send_message :: "exn + string"
  json_loads :: "string \<Rightarrow> exn + json"
  json_dumps :: "json \<Rightarrow> string"
  save_outcome :: write_outcome
  json_write_outcome :: write_outcome
  remove_fault :: "string \<Rightarrow> exn option"
  image_upload_fault :: "exn option"
  metadata_upload_fault :: "exn option"
  list_blobs :: "exn + string list"
  meta_exists_fault :: "exn option"
  download_fault :: "exn option"
  image_exists_fault :: "exn option"
  sign_url :: "string \<Rightarrow> nat \<Rightarrow> exn + string"

section \<open>The AI captioning client\<close>

text \<open>\<open>upload_to_gemini\<close>: the file handle, or \<open>None\<close> after logging the failure.\<close>

definition upload_to_gemini :: "env \<Rightarrow> string \<Rightarrow> world \<Rightarrow> string option \<times> world" where
  "upload_to_gemini en path w =
     (let w1 = emit (GenaiUploadFile path) w
      in case upload_file en path of
           Inr file \<Rightarrow> (Some file, w1)
         | Inl e \<Rightarrow>
             (None, logging ERROR (''Failed to upload image to Gemini: '' @ exn_str e) w1))"

definition sentinel_upload_error :: json where
  "sentinel_upload_error =
     JObj [(''title'', JStr ''Upload Error''),
           (''description'', JStr ''Failed to upload image to Gemini AI.'')]"

definition sentinel_invalid_response :: json where
  "sentinel_invalid_response =
     JObj [(''title'', JStr ''Invalid Response''),
           (''description'', JStr ''Gemini AI returned an invalid response.'')]"

definition sentinel_error :: json where
  "sentinel_error =
     JObj [(''title'', JStr ''Error''),
           (''description'', JStr ''An error occurred while processing the image.'')]"

text \<open>The text handed to \<open>json.loads\<close>: the reply without its code fences, stripped.\<close>

definition strip_fences :: "string \<Rightarrow> string" where
  "strip_fences text = py_strip (py_replace ''```'' [] (py_replace ''```json'' [] text))"

text \<open>The body of the \<open>try\<close> of \<open>generative_ai\<close>: \<open>Inl\<close> is an exception leaving the body.\<close>

definition generative_ai_try :: "env \<Rightarrow> string \<Rightarrow> world \<Rightarrow> (exn + json) \<times> world" where
  "generative_ai_try en image_file w =
     (case make_model en of
        Some e \<Rightarrow> (Inl e, w)
      | None \<Rightarrow>
         (case upload_to_gemini en image_file w of
            (None, w1) \<Rightarrow> (Inr sentinel_upload_error, w1)
          | (Some files, w1) \<Rightarrow>
             (case start_chat en of
                Some e \<Rightarrow> (Inl e, w1)
              | None \<Rightarrow>
                 (let w2 = emit GenaiSendMessage w1
                  in case send_message en of
                       Inl e \<Rightarrow> (Inl e, w2)
                     | Inr text \<Rightarrow>
                        (let w3 = logging DEBUG (''Gemini API Response: '' @ text) w2
                         in case json_loads en (strip_fences text) of
                              Inl e \<Rightarrow> (Inl e, w3)
                            | Inr j \<Rightarrow> (Inr j, w3))))))"

text \<open>\<open>generative_ai\<close>: the body under its two handlers, in the source's order.\<close>

definition generative_ai :: "env \<Rightarrow> string \<Rightarrow> world \<Rightarrow> (exn + json) \<times> world" where
  "generative_ai en image_file w =
     (case generative_ai_try en image_file w of
        (Inr j, w1) \<Rightarrow> (Inr j, w1)
      | (Inl (JSONDecodeError m), w1) \<Rightarrow>
          (Inr sentinel_invalid_response,
           logging ERROR ''Invalid JSON response from Gemini AI'' w1)
      | (Inl e, w1) \<Rightarrow>
          (Inr sentinel_error,
           logging ERROR (''Error in generative AI: '' @ exn_str e) w1))"

text \<open>
  The three ways the client can fail: the upload step returns no file; the fence-stripped
  reply is rejected by the JSON parser; any other step raises.
\<close>

definition upload_step_fails :: "env \<Rightarrow> string \<Rightarrow> bool" where
  "upload_step_fails en image_file =
     (make_model en = None \<and> isl (upload_file en image_file))"

definition reply_not_json :: "env \<Rightarrow> string \<Rightarrow> bool" where
  "reply_not_json en image_file =
     (make_model en = None \<and> \<not> isl (upload_file en image_file) \<and> start_chat en = None \<and>
      (case send_message en of
         Inl e \<Rightarrow> False
       | Inr text \<Rightarrow>
          (case json_loads en (strip_fences text) of
             Inl (JSONDecodeError m) \<Rightarrow> True
           | _ \<Rightarrow> False)))"

definition is_decode_error :: "exn \<Rightarrow> bool" where
  "is_decode_error e = (case e of JSONDecodeError m \<Rightarrow> True | _ \<Rightarrow> False)"

definition other_step_raises :: "env \<Rightarrow> string \<Rightarrow> bool" where
  "other_step_raises en image_file =
     (case make_model en of
        Some e \<Rightarrow> \<not> is_decode_error e
      | None \<Rightarrow>
         \<not> isl (upload_file en image_file) \<and>
         (case start_chat en of
            Some e \<Rightarrow> \<not> is_decode_error e
          | None \<Rightarrow>
             (case send_message en of
                Inl e \<Rightarrow> \<not> is_decode_error e
              | Inr text \<Rightarrow>
                 (case json_loads en (strip_fences text) of
                    Inl e \<Rightarrow> \<not> is_decode_error e
                  | Inr j \<Rightarrow> False))))"

definition captioning_succeeds :: "env \<Rightarrow> string \<Rightarrow> bool" where
  "captioning_succeeds en image_file =
     (make_model en = None \<and> \<not> isl (upload_file en image_file) \<and> start_chat en = None \<and>
      (case send_message en of
         Inl e \<Rightarrow> False
       | Inr text \<Rightarrow> \<not> isl (json_loads en (strip_fences text))))"

section \<open>The object store gateway\<close>

text \<open>
  \<open>upload_to_gcs\<close>: copies the local file to the key and answers \<open>True\<close>; any exception
  (the fault of the transport, or the local file missing) is logged and answered with
  \<open>False\<close>, and then the store is as it was.
\<close>

definition upload_to_gcs ::
  "exn option \<Rightarrow> string option \<Rightarrow> string \<Rightarrow> string \<Rightarrow> world \<Rightarrow> bool \<times> world" where
  "upload_to_gcs fault bucket source_file destination_blob_name w =
     (case (case fs w source_file of
              None \<Rightarrow> Inl (OtherError ''No such file or directory'')
            | Some data \<Rightarrow> (case fault of Some e \<Rightarrow> Inl e | None \<Rightarrow> Inr data)) of
        Inr data \<Rightarrow>
          (True,
           logging INFO (''Uploaded '' @ destination_blob_name @ '' to GCS successfully.'')
             (emit (GcsUpload bucket destination_blob_name True)
                (w\<lparr>gcs := (gcs w)(bucket := (gcs w bucket)(destination_blob_name \<mapsto> data))\<rparr>)))
      | Inl e \<Rightarrow>
          (False,
           logging ERROR (''Failed to upload '' @ source_file @ '' to GCS: '' @ exn_str e)
             (emit (GcsUpload bucket destination_blob_name False) w)))"


text \<open>The body of the \<open>try\<close> of \<open>generate_temporary_url\<close>.\<close>

definition generate_temporary_url_try ::
  "env \<Rightarrow> string option \<Rightarrow> string \<Rightarrow> nat \<Rightarrow> world \<Rightarrow> (exn + string option) \<times> world" where
  "generate_temporary_url_try en bucket blob_name expiration w =
     (case image_exists_fault en of
        Some e \<Rightarrow> (Inl e, w)
      | None \<Rightarrow>
         (if gcs w bucket blob_name = None
          then (Inr None, logging ERROR (''File '' @ blob_name @ '' not found in GCS.'') w)
          else (case sign_url en blob_name expiration of
                  Inl e \<Rightarrow> (Inl e, w)
                | Inr url \<Rightarrow> (Inr (Some url), w))))"

definition generate_temporary_url ::
  "env \<Rightarrow> string option \<Rightarrow> string \<Rightarrow> nat \<Rightarrow> world \<Rightarrow> (exn + string option) \<times> world" where
  "generate_temporary_url en bucket blob_name expiration w =
     (case generate_temporary_url_try en bucket blob_name expiration w of
        (Inr r, w1) \<Rightarrow> (Inr r, w1)
      | (Inl e, w1) \<Rightarrow>
          (Inr None,
           logging ERROR
             (''Failed to generate signed URL for '' @ blob_name @ '': '' @ exn_str e) w1))"

section \<open>The routes\<close>

record config =
  bucket_name :: "string option"
  background_color :: "string option"


text \<open>
  What a route answers: a plain text with a status, the redirect to the view of a file
  name, a rendered page, or an exception that leaves the route, which Flask answers
  with status 500.
\<close>

datatype response =
    Plain string nat
  | RedirectView string
  | IndexPage "string list" string
  | ViewPage string json json string
  | Unhandled exn

fun status :: "response \<Rightarrow> nat" where
  "status (Plain body code) = code"
| "status (RedirectView name) = 302"
| "status (IndexPage images bg) = 200"
| "status (ViewPage url title description bg) = 200"
| "status (Unhandled e) = 500"


record file_storage =
  filename :: string
  content :: string

text \<open>
  Writing a local file (\<open>file.save\<close>, \<open>open(..., 'w')\<close> with \<open>json.dump\<close>), with the outcome
  the environment gives it. A write to a path that names a directory is one of the
  failing outcomes, with nothing written.
\<close>

definition write_file ::
  "write_outcome \<Rightarrow> string \<Rightarrow> string \<Rightarrow> world \<Rightarrow> (exn + unit) \<times> world" where
  "write_file outcome path data w =
     (case outcome of
        Written \<Rightarrow> (Inr (), emit (FsWrite path) (w\<lparr>fs := (fs w)(path \<mapsto> data)\<rparr>))
      | WriteFailed e None \<Rightarrow> (Inl e, w)
      | WriteFailed e (Some part) \<Rightarrow>
          (Inl e, emit (FsWrite path) (w\<lparr>fs := (fs w)(path \<mapsto> part)\<rparr>)))"

text \<open>
  How the \<open>try\<close> block of \<open>upload\<close> ends when no exception leaves it: with a \<open>return\<close>, or
  at its last statement, with \<open>file.filename\<close> bound for the redirect that follows.
\<close>

datatype completion = Returned response | FellThrough string

text \<open>
  The \<open>try\<close> block of \<open>upload\<close>. Besides its outcome it gives the values of \<open>temp_path\<close>
  and \<open>json_path\<close> when control leaves the block, which the \<open>finally\<close> clause reads.
\<close>

definition upload_try ::
  "config \<Rightarrow> env \<Rightarrow> (string \<rightharpoonup> file_storage) \<Rightarrow> world \<Rightarrow>
   (exn + completion) \<times> string option \<times> string option \<times> world" where
  "upload_try cfg en files w =
     (case files ''image'' of
        None \<Rightarrow> (Inr (Returned (Plain ''No file uploaded'' 400)), None, None, w)
      | Some file \<Rightarrow>
         (if filename file = [] then (Inr (Returned (Plain ''No file selected'' 400)), None, None, w)
          else
           (let temp_path = path_join ''/tmp'' (filename file) in
            case write_file (save_outcome en) temp_path (content file) w of
              (Inl e, w1) \<Rightarrow> (Inl e, Some temp_path, None, w1)
            | (Inr u, w1) \<Rightarrow>
               (case generative_ai en temp_path w1 of
                  (Inl e, w2) \<Rightarrow> (Inl e, Some temp_path, None, w2)
                | (Inr ai_response, w2) \<Rightarrow>
                   (case py_get ai_response ''title'' (JStr ''No title present'') of
                      Inl e \<Rightarrow> (Inl e, Some temp_path, None, w2)
                    | Inr title \<Rightarrow>
                       (case py_get ai_response ''description'' (JStr ''No description present'') of
                          Inl e \<Rightarrow> (Inl e, Some temp_path, None, w2)
                        | Inr description \<Rightarrow>
                           (let json_data = JObj [(''title'', title), (''description'', description)];
                                json_filename = splitext_root (filename file) @ ''.json'';
                                json_path = path_join ''/tmp'' json_filename
                            in case write_file (json_write_outcome en) json_path
                                      (json_dumps en json_data) w2 of
                                 (Inl e, w3) \<Rightarrow> (Inl e, Some temp_path, Some json_path, w3)
                               | (Inr u, w3) \<Rightarrow>
                                  (case upload_to_gcs (image_upload_fault en) (bucket_name cfg)
                                          temp_path (filename file) w3 of
                                     (False, w4) \<Rightarrow>
                                       (Inr (Returned (Plain ''File upload failed'' 500)),
                                        Some temp_path, Some json_path, w4)
                                   | (True, w4) \<Rightarrow>
                                      (case upload_to_gcs (metadata_upload_fault en)
                                              (bucket_name cfg) json_path json_filename w4 of
                                         (False, w5) \<Rightarrow>
                                           (Inr (Returned (Plain ''File upload failed'' 500)),
                                            Some temp_path, Some json_path, w5)
                                       | (True, w5) \<Rightarrow>
                                           (Inr (FellThrough (filename file)),
                                            Some temp_path, Some json_path, w5))))))))))"

text \<open>
  \<open>os.path.exists(path)\<close> is true of a regular file and of a directory. \<open>os.remove(path)\<close>
  raises on a directory and on a path that is not there, and on a regular file whenever the
  environment makes the unlinking fail.
\<close>

definition path_exists :: "world \<Rightarrow> string \<Rightarrow> bool" where
  "path_exists w p = (fs w p \<noteq> None \<or> p \<in> dirs w)"

definition os_remove :: "env \<Rightarrow> string \<Rightarrow> world \<Rightarrow> (exn + unit) \<times> world" where
  "os_remove en p w =
     (if p \<in> dirs w then (Inl (OtherError ''Is a directory''), w)
      else if fs w p = None then (Inl (OtherError ''No such file or directory''), w)
      else (case remove_fault en p of
              Some e \<Rightarrow> (Inl e, w)
            | None \<Rightarrow> (Inr (), w\<lparr>fs := (fs w)(p := None)\<rparr>)))"

text \<open>One line of the \<open>finally\<close> clause: \<open>if path and os.path.exists(path): os.remove(path)\<close>.\<close>

definition remove_if_exists :: "env \<Rightarrow> string option \<Rightarrow> world \<Rightarrow> (exn + unit) \<times> world" where
  "remove_if_exists en p w =
     (if truthy p \<and> path_exists w (the p) then os_remove en (the p) w else (Inr (), w))"

text \<open>
  The \<open>try\<close> block of \<open>upload\<close> under its \<open>except Exception\<close> handler: how control reaches
  the \<open>finally\<close> clause, with \<open>temp_path\<close> and \<open>json_path\<close> as they are then.
\<close>

definition upload_handled ::
  "config \<Rightarrow> env \<Rightarrow> (string \<rightharpoonup> file_storage) \<Rightarrow> world \<Rightarrow>
   completion \<times> string option \<times> string option \<times> world" where
  "upload_handled cfg en files w =
     (case upload_try cfg en files w of
        (r, temp_path, json_path, w1) \<Rightarrow>
          (case r of
             Inl e \<Rightarrow>
               (Returned (Plain ''Internal Server Error'' 500), temp_path, json_path,
                logging ERROR (''Unexpected error: '' @ exn_str e) w1)
           | Inr c \<Rightarrow> (c, temp_path, json_path, w1)))"

text \<open>
  The \<open>finally\<close> clause: its two lines in order. An exception raised by the first removal
  leaves the clause at once, so the second line is not run; \<open>Some e\<close> is that exception.
\<close>

definition finally_cleanup ::
  "env \<Rightarrow> string option \<Rightarrow> string option \<Rightarrow> world \<Rightarrow> exn option \<times> world" where
  "finally_cleanup en temp_path json_path w =
     (case remove_if_exists en temp_path w of
        (Inl e, w1) \<Rightarrow> (Some e, w1)
      | (Inr u, w1) \<Rightarrow>
         (case remove_if_exists en json_path w1 of
            (Inl e, w2) \<Rightarrow> (Some e, w2)
          | (Inr u, w2) \<Rightarrow> (None, w2)))"

text \<open>
  \<open>upload\<close>: the guard on the bucket name, the \<open>try\<close> block under its handler, the
  \<open>finally\<close> clause, and the redirect that follows them. An exception that leaves the
  \<open>finally\<close> clause replaces the pending \<open>return\<close> and leaves the route.
\<close>

definition upload ::
  "config \<Rightarrow> env \<Rightarrow> (string \<rightharpoonup> file_storage) \<Rightarrow> world \<Rightarrow> response \<times> world" where
  "upload cfg en files w =
     (if \<not> truthy (bucket_name cfg) then (Plain ''GCS_BUCKET_NAME is not set'' 500, w)
      else
       (case upload_handled cfg en files w of
          (c, temp_path, json_path, w2) \<Rightarrow>
            (case finally_cleanup en temp_path json_path w2 of
               (Some e, w3) \<Rightarrow> (Unhandled e, w3)
             | (None, w3) \<Rightarrow>
                (case c of
                   Returned resp \<Rightarrow> (resp, w3)
                 | FellThrough name \<Rightarrow> (RedirectView name, w3)))))"

text \<open>The key of the metadata object of a file name, as both \<open>upload\<close> and \<open>view_image\<close> derive it.\<close>

definition json_key :: "string \<Rightarrow> string" where
  "json_key name = splitext_root name @ ''.json''"


section \<open>Process initialization\<close>

definition PROJECT_ID :: string where
  "PROJECT_ID = ''image-upload-gcp-project''"

definition SECRET_NAME :: string where
  "SECRET_NAME = ''GCS_SERVICE_ACCOUNT_KEY''"

definition GEMINI_SECRET_NAME :: string where
  "GEMINI_SECRET_NAME = ''GEMINI_API_KEY''"

definition secret_version_path :: "string \<Rightarrow> string" where
  "secret_version_path name = ''projects/'' @ PROJECT_ID @ ''/secrets/'' @ name @ ''/versions/latest''"

text \<open>
  The behaviour of the secret store and of the client constructors at start-up:
  \<open>access_secret\<close> gives the decoded payload of a secret version, or the exception.
\<close>

record init_env =
  secret_client_fault :: "exn option"
  access_secret :: "string \<Rightarrow> exn + string"
  cred_write_outcome :: write_outcome
  configure_fault :: "exn option"
  storage_client_fault :: "exn option"

datatype storage_client = StorageClient

text \<open>The body of the \<open>try\<close> of \<open>get_gcs_credentials\<close>, which fetches the Gemini API key.\<close>

definition gemini_key_try :: "init_env \<Rightarrow> world \<Rightarrow> (exn + unit) \<times> world" where
  "gemini_key_try ie w =
     (let gemini_secret_path = secret_version_path GEMINI_SECRET_NAME;
          w1 = emit (SecretAccess gemini_secret_path) w
      in case access_secret ie gemini_secret_path of
           Inl e \<Rightarrow> (Inl e, w1)
         | Inr gemini_api_key \<Rightarrow>
            (case configure_fault ie of
               Some e \<Rightarrow> (Inl e, w1)
             | None \<Rightarrow>
                (Inr (),
                 logging INFO ''Gemini AI API Key successfully configured.''
                   (w1\<lparr>genai_api_key := Some gemini_api_key\<rparr>))))"

definition get_gcs_credentials :: "init_env \<Rightarrow> world \<Rightarrow> (exn + string) \<times> world" where
  "get_gcs_credentials ie w =
     (case secret_client_fault ie of
        Some e \<Rightarrow> (Inl e, w)
      | None \<Rightarrow>
         (let secret_path = secret_version_path SECRET_NAME;
              w1 = emit (SecretAccess secret_path) w
          in case access_secret ie secret_path of
               Inl e \<Rightarrow> (Inl e, w1)
             | Inr secret_json \<Rightarrow>
                (let temp_cred_path = ''/tmp/gcs_service_account.json''
                 in case write_file (cred_write_outcome ie) temp_cred_path secret_json w1 of
                      (Inl e, w2) \<Rightarrow> (Inl e, w2)
                    | (Inr u, w2) \<Rightarrow>
                       (let w3 = w2\<lparr>environ := (environ w2)
                                   (''GOOGLE_APPLICATION_CREDENTIALS'' \<mapsto> temp_cred_path)\<rparr>
                        in case gemini_key_try ie w3 of
                             (Inl e, w4) \<Rightarrow>
                               (Inl e,
                                logging ERROR
                                  (''Failed to retrieve Gemini API Key: '' @ exn_str e) w4)
                           | (Inr u, w4) \<Rightarrow> (Inr temp_cred_path, w4)))))"

text \<open>
  \<open>initialize_clients\<close>, whose value the module binds to \<open>storage_client\<close>: an exception
  leaving it leaves the name unbound.
\<close>

definition initialize_clients :: "init_env \<Rightarrow> world \<Rightarrow> (exn + storage_client) \<times> world" where
  "initialize_clients ie w =
     (case get_gcs_credentials ie w of
        (Inl e, w1) \<Rightarrow> (Inl e, w1)
      | (Inr path, w1) \<Rightarrow>
         (case storage_client_fault ie of
            Some e \<Rightarrow> (Inl e, w1)
          | None \<Rightarrow> (Inr StorageClient, emit StorageClientCreated w1)))"

text \<open>The Gemini key cannot be fetched: the secret store or \<open>genai.configure\<close> raises.\<close>

definition gemini_key_failure :: "init_env \<Rightarrow> exn \<Rightarrow> bool" where
  "gemini_key_failure ie e =
     (case access_secret ie (secret_version_path GEMINI_SECRET_NAME) of
        Inl e' \<Rightarrow> e = e'
      | Inr key \<Rightarrow> configure_fault ie = Some e)"

section \<open>Reading the trace\<close>

definition is_gcs_upload :: "event \<Rightarrow> bool" where
  "is_gcs_upload e = (case e of GcsUpload b k ok \<Rightarrow> True | _ \<Rightarrow> False)"

definition is_fs_write :: "event \<Rightarrow> bool" where
  "is_fs_write e = (case e of FsWrite p \<Rightarrow> True | _ \<Rightarrow> False)"

text \<open>What a call added to the trace, between the world before and the world after.\<close>

definition new_events :: "world \<Rightarrow> world \<Rightarrow> event list" where
  "new_events w w' = drop (length (trace w)) (trace w')"

section \<open>A scenario: uploading \<open>cat.jpg\<close>\<close>

text \<open>
  The captioning service answers with a fenced JSON object, every write and every
  storage call succeeds. The JSON library is scripted for the one text of the scenario.
\<close>

definition cat_record :: json where
  "cat_record = JObj [(''title'', JStr ''Cat''), (''description'', JStr ''A cat.'')]"

definition cat_text :: string where
  "cat_text = ''{\"title\": \"Cat\", \"description\": \"A cat.\"}''"

definition cat_env :: env where
  "cat_env =
     \<lparr>make_model = None,
      upload_file = (\<lambda>path. Inr ''files/cat''),
      start_chat = None,
      send_message = Inr (''```json '' @ cat_text @ '' ```''),
      json_loads = (\<lambda>s. if s = cat_text then Inr cat_record
                         else Inl (JSONDecodeError ''Expecting value'')),
      json_dumps = (\<lambda>j. if j = cat_record then cat_text else ''null''),
      save_outcome = Written,
      json_write_outcome = Written,
      remove_fault = (\<lambda>path. None),
      image_upload_fault = None,
      metadata_upload_fault = None,
      list_blobs = Inr [''cat.jpg'', ''cat.json''],
      meta_exists_fault = None,
      download_fault = None,
      image_exists_fault = None,
      sign_url = (\<lambda>key seconds. Inr (''https://storage.example/'' @ key @ ''?sig''))\<rparr>"

definition empty_world :: world where
  "empty_world =
     \<lparr>fs = Map.empty, dirs = {}, gcs = (\<lambda>b. Map.empty), environ = Map.empty,
      genai_api_key = None, trace = []\<rparr>"

definition cat_config :: config where
  "cat_config = \<lparr>bucket_name = Some ''images'', background_color = None\<rparr>"

definition unconfigured :: config where
  "unconfigured = \<lparr>bucket_name = None, background_color = None\<rparr>"

definition cat_files :: "string \<rightharpoonup> file_storage" where
  "cat_files = [''image'' \<mapsto> \<lparr>filename = ''cat.jpg'', content = ''JPEG''\<rparr>]"

definition no_files :: "string \<rightharpoonup> file_storage" where
  "no_files = Map.empty"

definition unnamed_files :: "string \<rightharpoonup> file_storage" where
  "unnamed_files = [''image'' \<mapsto> \<lparr>filename = [], content = []\<rparr>]"


text \<open>The world after the upload of the scenario.\<close>

definition cat_world :: world where
  "cat_world = snd (upload cat_config cat_env cat_files empty_world)"

text \<open>Variations of the scenario: one service fails.\<close>

definition signing_down :: env where
  "signing_down = cat_env\<lparr>sign_url := (\<lambda>key seconds. Inl (OtherError ''no private key''))\<rparr>"

definition gemini_upload_down :: env where
  "gemini_upload_down = cat_env\<lparr>upload_file := (\<lambda>path. Inl (OtherError ''unavailable''))\<rparr>"

definition gemini_not_json :: env where
  "gemini_not_json = cat_env\<lparr>send_message := Inr ''not json''\<rparr>"

definition gemini_chat_down :: env where
  "gemini_chat_down = cat_env\<lparr>send_message := Inl (OtherError ''deadline exceeded'')\<rparr>"

definition metadata_upload_down :: env where
  "metadata_upload_down = cat_env\<lparr>metadata_upload_fault := Some (OtherError ''503'')\<rparr>"



text \<open>The operating system refuses to unlink the temporary image.\<close>

definition remove_down :: env where
  "remove_down =
     cat_env\<lparr>remove_fault := (\<lambda>path. if path = ''/tmp/cat.jpg''
                                       then Some (OtherError ''Operation not permitted'')
                                       else None)\<rparr>"


text \<open>Start-up with a secret store that has the storage credential but not the Gemini key.\<close>

definition gemini_key_missing :: init_env where
  "gemini_key_missing =
     \<lparr>secret_client_fault = None,
      access_secret = (\<lambda>path. if path = secret_version_path SECRET_NAME
                               then Inr ''{}''
                               else Inl (OtherError ''404 secret not found'')),
      cred_write_outcome = Written,
      configure_fault = None,
      storage_client_fault = None\<rparr>"

section \<open>What the captioning client and the upload route leave behind\<close>

text \<open>
  The captioning client never raises, its value does not depend on the world, and all it
  does to the world is to extend the trace, with no storage upload and no local write.
\<close>

lemma generative_ai_try_frame:
  "\<exists>r evs. \<forall>w. generative_ai_try en p w = (r, w\<lparr>trace := trace w @ evs\<rparr>) \<and>
       filter is_gcs_upload evs = [] \<and> filter is_fs_write evs = []"
proof (cases "make_model en")
  case (Some e)
  then show ?thesis
    by (auto simp: generative_ai_try_def intro: exI[of _ "[]"])
next
  case None
  note mm = this
  show ?thesis
  proof (cases "upload_file en p")
    case (Inl e)
    with mm show ?thesis
      by (auto simp: generative_ai_try_def upload_to_gemini_def logging_def emit_def
            is_gcs_upload_def is_fs_write_def intro!: exI)
  next
    case (Inr f)
    note uf = this
    show ?thesis
    proof (cases "start_chat en")
      case (Some e)
      with mm uf show ?thesis
        by (auto simp: generative_ai_try_def upload_to_gemini_def logging_def emit_def
              is_gcs_upload_def is_fs_write_def intro!: exI)
    next
      case None
      note sc = this
      show ?thesis
      proof (cases "send_message en")
        case (Inl e)
        with mm uf sc show ?thesis
          by (auto simp: generative_ai_try_def upload_to_gemini_def logging_def emit_def
                is_gcs_upload_def is_fs_write_def intro!: exI)
      next
        case (Inr reply)
        with mm uf sc show ?thesis
          by (cases "json_loads en (strip_fences reply)")
             (auto simp: generative_ai_try_def upload_to_gemini_def logging_def emit_def
                is_gcs_upload_def is_fs_write_def intro!: exI)
      qed
    qed
  qed
qed

lemma generative_ai_frame:
  "\<exists>v evs. \<forall>w. generative_ai en p w = (Inr v, w\<lparr>trace := trace w @ evs\<rparr>) \<and>
       filter is_gcs_upload evs = [] \<and> filter is_fs_write evs = []"
proof -
  obtain r evs where t: "\<And>w. generative_ai_try en p w = (r, w\<lparr>trace := trace w @ evs\<rparr>)"
    and e1: "filter is_gcs_upload evs = []" and e2: "filter is_fs_write evs = []"
    using generative_ai_try_frame[of en p] by blast
  show ?thesis
  proof (cases r)
    case (Inr j)
    with t e1 e2 show ?thesis by (auto simp: generative_ai_def intro!: exI[of _ evs])
  next
    case (Inl e)
    show ?thesis
    proof (cases e)
      case (JSONDecodeError m)
      with Inl t e1 e2 show ?thesis
        by (auto simp: generative_ai_def logging_def emit_def is_gcs_upload_def is_fs_write_def
              intro!: exI[of _ "evs @ [Log ERROR ''Invalid JSON response from Gemini AI'']"])
    next
      case (AttributeError m)
      with Inl t e1 e2 show ?thesis
        by (auto simp: generative_ai_def logging_def emit_def is_gcs_upload_def is_fs_write_def
              intro!: exI[of _ "evs @ [Log ERROR (''Error in generative AI: '' @ m)]"])
    next
      case (OtherError m)
      with Inl t e1 e2 show ?thesis
        by (auto simp: generative_ai_def logging_def emit_def is_gcs_upload_def is_fs_write_def
              intro!: exI[of _ "evs @ [Log ERROR (''Error in generative AI: '' @ m)]"])
    qed
  qed
qed

text \<open>
  Paths under \<open>/tmp\<close>. A file name and its metadata key are both absolute or both
  relative, so they give the same temporary path only when they are the same name.
\<close>

lemma path_join_nonempty: "a \<noteq> [] \<Longrightarrow> path_join a b \<noteq> []"
  by (auto simp: path_join_def)

lemma tmp_path_nonempty [simp]: "path_join ''/tmp'' b \<noteq> []"
  by (rule path_join_nonempty) simp






lemma upload_unconfigured:
  "\<not> truthy (bucket_name cfg) \<Longrightarrow>
   upload cfg en files w = (Plain ''GCS_BUCKET_NAME is not set'' 500, w)"
  by (simp add: upload_def)

lemma finally_cleanup_None [simp]: "finally_cleanup en None None w = (None, w)"
  by (simp add: finally_cleanup_def remove_if_exists_def truthy_def)

lemma upload_no_file:
  "truthy (bucket_name cfg) \<Longrightarrow> files ''image'' = None \<Longrightarrow>
   upload cfg en files w = (Plain ''No file uploaded'' 400, w)"
  by (simp add: upload_def upload_handled_def upload_try_def)

lemma upload_empty_filename:
  "truthy (bucket_name cfg) \<Longrightarrow> files ''image'' = Some f \<Longrightarrow> filename f = [] \<Longrightarrow>
   upload cfg en files w = (Plain ''No file selected'' 400, w)"
  by (simp add: upload_def upload_handled_def upload_try_def)

text \<open>
  The \<open>finally\<close> clause touches neither the store nor the trace. When none of its removals
  raises, neither path names a file afterwards.
\<close>

lemma remove_if_exists_frame:
  "remove_if_exists en p w = (r, w') \<Longrightarrow>
   gcs w' = gcs w \<and> trace w' = trace w \<and> dirs w' = dirs w \<and>
   (\<forall>q. fs w q = None \<longrightarrow> fs w' q = None) \<and>
   (r = Inr () \<longrightarrow> truthy p \<longrightarrow> fs w' (the p) = None)"
  by (auto simp: remove_if_exists_def os_remove_def path_exists_def
       split: if_splits option.splits)

lemma finally_cleanup_frame:
  assumes "finally_cleanup en tp jp w = (r, w')"
  shows "gcs w' = gcs w \<and> trace w' = trace w \<and>
         (r = None \<longrightarrow> (truthy tp \<longrightarrow> fs w' (the tp) = None) \<and>
                        (truthy jp \<longrightarrow> fs w' (the jp) = None))"
proof -
  obtain r1 w1 where a: "remove_if_exists en tp w = (r1, w1)" by (cases "remove_if_exists en tp w")
  obtain r2 w2 where b: "remove_if_exists en jp w1 = (r2, w2)" by (cases "remove_if_exists en jp w1")
  note fa = remove_if_exists_frame[OF a] and fb = remove_if_exists_frame[OF b]
  show ?thesis
  proof (cases r1)
    case (Inl e)
    with assms a fa show ?thesis by (auto simp: finally_cleanup_def)
  next
    case (Inr u)
    note r1 = this
    show ?thesis
    proof (cases r2)
      case (Inl e)
      with assms a b r1 fa fb show ?thesis by (auto simp: finally_cleanup_def)
    next
      case (Inr u')
      with assms a b r1 have "w' = w2" "r = None" by (auto simp: finally_cleanup_def)
      with fa fb r1 Inr show ?thesis by simp
    qed
  qed
qed

lemma upload_split:
  assumes "truthy (bucket_name cfg)" and "upload cfg en files w = (resp, w')"
  shows "\<exists>c tp jp w2 r. upload_handled cfg en files w = (c, tp, jp, w2) \<and>
           finally_cleanup en tp jp w2 = (r, w') \<and>
           (case r of
              Some e \<Rightarrow> resp = Unhandled e
            | None \<Rightarrow> resp = (case c of Returned x \<Rightarrow> x | FellThrough n \<Rightarrow> RedirectView n))"
  using assms
  by (auto simp: upload_def split: prod.splits option.splits completion.splits)

text \<open>
  The \<open>try\<close> block under its handler, path by path: the failed save, a captioning result
  that is no dictionary, the failed write of the metadata file, the failed image upload,
  the failed metadata upload, and the run in which both objects are stored. The object
  stored under the file name is what the temporary image path holds at that moment: the
  metadata text when the two temporary paths are one, the uploaded content otherwise.
\<close>

lemmas handled_defs = upload_handled_def upload_try_def write_file_def upload_to_gcs_def
  truthy_def emit_def logging_def is_gcs_upload_def is_fs_write_def json_key_def Let_def

lemma handled_save_failed:
  assumes "files ''image'' = Some f" "filename f \<noteq> []"
    and "save_outcome en = WriteFailed e part"
    and "upload_handled cfg en files w = (c, tp, jp, w2)"
  shows "c = Returned (Plain ''Internal Server Error'' 500) \<and>
         tp = Some (path_join ''/tmp'' (filename f)) \<and> jp = None \<and> gcs w2 = gcs w \<and>
         (\<exists>evs. trace w2 = trace w @ evs \<and> filter is_gcs_upload evs = [] \<and>
            set (filter is_fs_write evs) \<subseteq> {FsWrite (path_join ''/tmp'' (filename f))})"
  using assms
  by (cases part) (auto simp: handled_defs split: if_splits)

lemma handled_not_dict:
  assumes "files ''image'' = Some f" "filename f \<noteq> []"
    and "save_outcome en = Written"
    and "\<And>w. generative_ai en (path_join ''/tmp'' (filename f)) w =
           (Inr ai, w\<lparr>trace := trace w @ evs\<rparr>)"
    and "filter is_gcs_upload evs = []" and nfs: "filter is_fs_write evs = []"
    and "\<forall>kvs. ai \<noteq> JObj kvs"
    and "upload_handled cfg en files w = (c, tp, jp, w2)"
  shows "c = Returned (Plain ''Internal Server Error'' 500) \<and>
         tp = Some (path_join ''/tmp'' (filename f)) \<and> jp = None \<and> gcs w2 = gcs w \<and>
         (\<exists>evs. trace w2 = trace w @ evs \<and> filter is_gcs_upload evs = [] \<and>
            set (filter is_fs_write evs) \<subseteq> {FsWrite (path_join ''/tmp'' (filename f))})"
proof -
  have "\<forall>x\<in>set evs. \<not> is_fs_write x"
    using nfs by (simp add: filter_empty_conv)
  with assms show ?thesis
    by (cases ai) (auto simp: handled_defs py_get_def split: if_splits)
qed

lemma handled_json_write_failed:
  assumes "files ''image'' = Some f" "filename f \<noteq> []"
    and "save_outcome en = Written"
    and "\<And>w. generative_ai en (path_join ''/tmp'' (filename f)) w =
           (Inr ai, w\<lparr>trace := trace w @ evs\<rparr>)"
    and "filter is_gcs_upload evs = []" and nfs: "filter is_fs_write evs = []"
    and "ai = JObj kvs"
    and "json_write_outcome en = WriteFailed e part"
    and "upload_handled cfg en files w = (c, tp, jp, w2)"
  shows "c = Returned (Plain ''Internal Server Error'' 500) \<and>
         tp = Some (path_join ''/tmp'' (filename f)) \<and>
         jp = Some (path_join ''/tmp'' (json_key (filename f))) \<and> gcs w2 = gcs w \<and>
         (\<exists>evs. trace w2 = trace w @ evs \<and> filter is_gcs_upload evs = [] \<and>
            set (filter is_fs_write evs) \<subseteq>
              {FsWrite (path_join ''/tmp'' (filename f)),
               FsWrite (path_join ''/tmp'' (json_key (filename f)))})"
proof -
  have "\<forall>x\<in>set evs. \<not> is_fs_write x"
    using nfs by (simp add: filter_empty_conv)
  with assms show ?thesis
    by (cases part) (auto simp: handled_defs py_get_def split: if_splits)
qed

lemma handled_image_failed:
  assumes "files ''image'' = Some f" "filename f \<noteq> []"
    and "save_outcome en = Written"
    and "\<And>w. generative_ai en (path_join ''/tmp'' (filename f)) w =
           (Inr ai, w\<lparr>trace := trace w @ evs\<rparr>)"
    and "filter is_gcs_upload evs = []" and nfs: "filter is_fs_write evs = []"
    and "ai = JObj kvs"
    and "json_write_outcome en = Written"
    and "image_upload_fault en = Some e"
    and "upload_handled cfg en files w = (c, tp, jp, w2)"
  shows "c = Returned (Plain ''File upload failed'' 500) \<and>
         tp = Some (path_join ''/tmp'' (filename f)) \<and>
         jp = Some (path_join ''/tmp'' (json_key (filename f))) \<and> gcs w2 = gcs w \<and>
         (\<exists>evs. trace w2 = trace w @ evs \<and>
            filter is_gcs_upload evs = [GcsUpload (bucket_name cfg) (filename f) False] \<and>
            set (filter is_fs_write evs) \<subseteq>
              {FsWrite (path_join ''/tmp'' (filename f)),
               FsWrite (path_join ''/tmp'' (json_key (filename f)))})"
proof -
  have "\<forall>x\<in>set evs. \<not> is_fs_write x"
    using nfs by (simp add: filter_empty_conv)
  with assms show ?thesis
    by (auto simp: handled_defs py_get_def split: if_splits)
qed

lemma handled_metadata_failed:
  assumes "files ''image'' = Some f" "filename f \<noteq> []"
    and "save_outcome en = Written"
    and "\<And>w. generative_ai en (path_join ''/tmp'' (filename f)) w =
           (Inr ai, w\<lparr>trace := trace w @ evs\<rparr>)"
    and "filter is_gcs_upload evs = []" and nfs: "filter is_fs_write evs = []"
    and "ai = JObj kvs"
    and "json_write_outcome en = Written"
    and "image_upload_fault en = None"
    and "metadata_upload_fault en = Some e"
    and "upload_handled cfg en files w = (c, tp, jp, w2)"
  shows "c = Returned (Plain ''File upload failed'' 500) \<and>
         tp = Some (path_join ''/tmp'' (filename f)) \<and>
         jp = Some (path_join ''/tmp'' (json_key (filename f))) \<and>
         gcs w2 = (gcs w)(bucket_name cfg :=
                     (gcs w (bucket_name cfg))(filename f \<mapsto>
                        (if path_join ''/tmp'' (filename f) =
                            path_join ''/tmp'' (json_key (filename f))
                         then json_dumps en
                            (JObj [(''title'', case map_of kvs ''title'' of
                                                 None \<Rightarrow> JStr ''No title present'' | Some v \<Rightarrow> v),
                                   (''description'', case map_of kvs ''description'' of
                                                 None \<Rightarrow> JStr ''No description present''
                                               | Some v \<Rightarrow> v)])
                         else content f))) \<and>
         (\<exists>evs. trace w2 = trace w @ evs \<and>
            filter is_gcs_upload evs =
              [GcsUpload (bucket_name cfg) (filename f) True,
               GcsUpload (bucket_name cfg) (json_key (filename f)) False] \<and>
            set (filter is_fs_write evs) \<subseteq>
              {FsWrite (path_join ''/tmp'' (filename f)),
               FsWrite (path_join ''/tmp'' (json_key (filename f)))})"
proof -
  have "\<forall>x\<in>set evs. \<not> is_fs_write x"
    using nfs by (simp add: filter_empty_conv)
  with assms show ?thesis
    by (auto simp: handled_defs py_get_def split: if_splits)
qed

lemma handled_stored:
  assumes "files ''image'' = Some f" "filename f \<noteq> []"
    and "save_outcome en = Written"
    and "\<And>w. generative_ai en (path_join ''/tmp'' (filename f)) w =
           (Inr ai, w\<lparr>trace := trace w @ evs\<rparr>)"
    and "filter is_gcs_upload evs = []" and nfs: "filter is_fs_write evs = []"
    and "ai = JObj kvs"
    and "json_write_outcome en = Written"
    and "image_upload_fault en = None"
    and "metadata_upload_fault en = None"
    and "upload_handled cfg en files w = (c, tp, jp, w2)"
  shows "c = FellThrough (filename f) \<and>
         tp = Some (path_join ''/tmp'' (filename f)) \<and>
         jp = Some (path_join ''/tmp'' (json_key (filename f))) \<and>
         gcs w2 = (gcs w)(bucket_name cfg :=
                     (gcs w (bucket_name cfg))(filename f \<mapsto>
                        (if path_join ''/tmp'' (filename f) =
                            path_join ''/tmp'' (json_key (filename f))
                         then json_dumps en
                            (JObj [(''title'', case map_of kvs ''title'' of
                                                 None \<Rightarrow> JStr ''No title present'' | Some v \<Rightarrow> v),
                                   (''description'', case map_of kvs ''description'' of
                                                 None \<Rightarrow> JStr ''No description present''
                                               | Some v \<Rightarrow> v)])
                         else content f),
                        json_key (filename f) \<mapsto>
                          json_dumps en
                            (JObj [(''title'', case map_of kvs ''title'' of
                                                 None \<Rightarrow> JStr ''No title present'' | Some v \<Rightarrow> v),
                                   (''description'', case map_of kvs ''description'' of
                                                 None \<Rightarrow> JStr ''No description present''
                                               | Some v \<Rightarrow> v)]))) \<and>
         (\<exists>evs. trace w2 = trace w @ evs \<and>
            filter is_gcs_upload evs =
              [GcsUpload (bucket_name cfg) (filename f) True,
               GcsUpload (bucket_name cfg) (json_key (filename f)) True] \<and>
            set (filter is_fs_write evs) \<subseteq>
              {FsWrite (path_join ''/tmp'' (filename f)),
               FsWrite (path_join ''/tmp'' (json_key (filename f)))})"
proof -
  have "\<forall>x\<in>set evs. \<not> is_fs_write x"
    using nfs by (simp add: filter_empty_conv)
  with assms show ?thesis
    by (auto simp: handled_defs py_get_def split: if_splits)
qed

lemma written_removed1:
  assumes "set (filter is_fs_write evs) \<subseteq> {FsWrite a}" and "F a = None"
  shows "\<forall>p. FsWrite p \<in> set evs \<longrightarrow> F p = None"
proof (intro allI impI)
  fix p assume "FsWrite p \<in> set evs"
  then have "FsWrite p \<in> set (filter is_fs_write evs)"
    by (simp add: is_fs_write_def)
  with assms show "F p = None" by auto
qed

lemma written_removed2:
  assumes "set (filter is_fs_write evs) \<subseteq> {FsWrite a, FsWrite b}"
    and "F a = None" and "F b = None"
  shows "\<forall>p. FsWrite p \<in> set evs \<longrightarrow> F p = None"
proof (intro allI impI)
  fix p assume "FsWrite p \<in> set evs"
  then have "FsWrite p \<in> set (filter is_fs_write evs)"
    by (simp add: is_fs_write_def)
  with assms show "F p = None" by auto
qed

text \<open>
  Every run of \<open>upload\<close> ends in one of five ways, with the storage uploads attempted and
  the objects stored as listed. When no exception leaves the \<open>finally\<close> clause, the local
  files written during the request are gone.
\<close>

lemma upload_cases:
  assumes r: "upload cfg en files w = (resp, w')"
  shows "\<exists>evs. trace w' = trace w @ evs \<and>
    ((\<forall>e. resp \<noteq> Unhandled e) \<longrightarrow> (\<forall>p. FsWrite p \<in> set evs \<longrightarrow> fs w' p = None)) \<and>
    ((filter is_gcs_upload evs = [] \<and> gcs w' = gcs w \<and> (status resp = 400 \<or> status resp = 500)) \<or>
     (\<exists>f. files ''image'' = Some f \<and> filename f \<noteq> [] \<and> truthy (bucket_name cfg) \<and>
        ((filter is_gcs_upload evs = [GcsUpload (bucket_name cfg) (filename f) False] \<and>
            gcs w' = gcs w \<and> status resp = 500) \<or>
         (\<exists>ai title description.
            filter is_gcs_upload evs =
              [GcsUpload (bucket_name cfg) (filename f) True,
               GcsUpload (bucket_name cfg) (json_key (filename f)) False] \<and>
            (\<forall>w0. fst (generative_ai en (path_join ''/tmp'' (filename f)) w0) = Inr ai) \<and>
            py_get ai ''title'' (JStr ''No title present'') = Inr title \<and>
            py_get ai ''description'' (JStr ''No description present'') = Inr description \<and>
            gcs w' = (gcs w)(bucket_name cfg := (gcs w (bucket_name cfg))(filename f \<mapsto>
                 (if path_join ''/tmp'' (filename f) = path_join ''/tmp'' (json_key (filename f))
                  then json_dumps en (JObj [(''title'', title), (''description'', description)])
                  else content f))) \<and>
            status resp = 500) \<or>
         (\<exists>ai title description.
            filter is_gcs_upload evs =
              [GcsUpload (bucket_name cfg) (filename f) True,
               GcsUpload (bucket_name cfg) (json_key (filename f)) True] \<and>
            (\<forall>w0. fst (generative_ai en (path_join ''/tmp'' (filename f)) w0) = Inr ai) \<and>
            py_get ai ''title'' (JStr ''No title present'') = Inr title \<and>
            py_get ai ''description'' (JStr ''No description present'') = Inr description \<and>
            gcs w' = (gcs w)(bucket_name cfg := (gcs w (bucket_name cfg))(filename f \<mapsto>
                 (if path_join ''/tmp'' (filename f) = path_join ''/tmp'' (json_key (filename f))
                  then json_dumps en (JObj [(''title'', title), (''description'', description)])
                  else content f),
                 json_key (filename f) \<mapsto>
                   json_dumps en (JObj [(''title'', title), (''description'', description)]))) \<and>
            (resp = RedirectView (filename f) \<or> (\<exists>e. resp = Unhandled e))))))"
    (is "\<exists>evs. ?T evs \<and> ?F evs \<and> (?A evs \<or> ?B evs)")
proof (cases "truthy (bucket_name cfg)")
  case False
  with r have "resp = Plain ''GCS_BUCKET_NAME is not set'' 500" "w' = w"
    by (simp_all add: upload_unconfigured)
  then have "?T [] \<and> ?F [] \<and> ?A []" by simp
  then show ?thesis by blast
next
  case True
  note b = this
  show ?thesis
  proof (cases "files ''image''")
    case None
    with r b have "resp = Plain ''No file uploaded'' 400" "w' = w"
      by (simp_all add: upload_no_file)
    then have "?T [] \<and> ?F [] \<and> ?A []" by simp
    then show ?thesis by blast
  next
    case (Some f)
    note f = this
    show ?thesis
    proof (cases "filename f = []")
      case True
      with r b f have "resp = Plain ''No file selected'' 400" "w' = w"
        by (simp_all add: upload_empty_filename)
      then have "?T [] \<and> ?F [] \<and> ?A []" by simp
      then show ?thesis by blast
    next
      case False
      note fn = this
      let ?tp = "path_join ''/tmp'' (filename f)"
      let ?jp = "path_join ''/tmp'' (json_key (filename f))"
      obtain ai evs where
        ga: "\<And>w. generative_ai en ?tp w = (Inr ai, w\<lparr>trace := trace w @ evs\<rparr>)"
        and e1: "filter is_gcs_upload evs = []" and e2: "filter is_fs_write evs = []"
        using generative_ai_frame[of en ?tp] by blast
      from upload_split[OF b r] obtain c tp jp w2 rr where
        h: "upload_handled cfg en files w = (c, tp, jp, w2)"
        and fc: "finally_cleanup en tp jp w2 = (rr, w')"
        and rs: "case rr of Some e \<Rightarrow> resp = Unhandled e
                 | None \<Rightarrow> resp = (case c of Returned x \<Rightarrow> x | FellThrough n \<Rightarrow> RedirectView n)"
        by blast
      from finally_cleanup_frame[OF fc] have
        cg: "gcs w' = gcs w2" and ct: "trace w' = trace w2"
        and cr: "rr = None \<Longrightarrow> truthy tp \<Longrightarrow> fs w' (the tp) = None"
                "rr = None \<Longrightarrow> truthy jp \<Longrightarrow> fs w' (the jp) = None"
        by simp_all
      have un: "\<forall>e. resp \<noteq> Unhandled e \<Longrightarrow> rr = None"
        using rs by (cases rr) auto
      have st: "\<And>x. c = Returned x \<Longrightarrow> status x = 500 \<Longrightarrow> status resp = 500"
        using rs by (cases rr) auto
      have rd: "\<And>n. c = FellThrough n \<Longrightarrow> resp = RedirectView n \<or> (\<exists>e. resp = Unhandled e)"
        using rs by (cases rr) auto
      have rm1: "\<And>evs'. tp = Some ?tp \<Longrightarrow> set (filter is_fs_write evs') \<subseteq> {FsWrite ?tp} \<Longrightarrow>
                   ?F evs'"
      proof (intro impI)
        fix evs' assume t: "tp = Some ?tp" and s: "set (filter is_fs_write evs') \<subseteq> {FsWrite ?tp}"
          and u: "\<forall>e. resp \<noteq> Unhandled e"
        from t have "truthy tp" by (simp add: truthy_def)
        from cr(1)[OF un[OF u] this] t have "fs w' ?tp = None" by simp
        from written_removed1[where F = "fs w'", OF s this] show "\<forall>p. FsWrite p \<in> set evs' \<longrightarrow> fs w' p = None" .
      qed
      have rm2: "\<And>evs'. tp = Some ?tp \<Longrightarrow> jp = Some ?jp \<Longrightarrow>
                   set (filter is_fs_write evs') \<subseteq> {FsWrite ?tp, FsWrite ?jp} \<Longrightarrow> ?F evs'"
      proof (intro impI)
        fix evs' assume t: "tp = Some ?tp" and j: "jp = Some ?jp"
          and s: "set (filter is_fs_write evs') \<subseteq> {FsWrite ?tp, FsWrite ?jp}"
          and u: "\<forall>e. resp \<noteq> Unhandled e"
        from t j have "truthy tp" "truthy jp" by (simp_all add: truthy_def)
        from cr(1)[OF un[OF u] this(1)] cr(2)[OF un[OF u] this(2)] t j
        have "fs w' ?tp = None" "fs w' ?jp = None" by simp_all
        from written_removed2[where F = "fs w'", OF s this]
        show "\<forall>p. FsWrite p \<in> set evs' \<longrightarrow> fs w' p = None" .
      qed
      show ?thesis
      proof (cases "save_outcome en")
        case (WriteFailed e part)
        from handled_save_failed[OF f fn WriteFailed h]
        obtain evs' where l: "c = Returned (Plain ''Internal Server Error'' 500)"
          "tp = Some ?tp" "gcs w2 = gcs w" "trace w2 = trace w @ evs'"
          "filter is_gcs_upload evs' = []" "set (filter is_fs_write evs') \<subseteq> {FsWrite ?tp}"
          by blast
        have "?F evs'" by (rule rm1[OF l(2) l(6)])
        moreover have "status resp = 500" by (rule st[OF l(1)]) simp
        ultimately have "?T evs' \<and> ?F evs' \<and> ?A evs'" using l cg ct by simp
        then show ?thesis by blast
      next
        case Written
        note sv = this
        show ?thesis
        proof (cases "\<exists>kvs. ai = JObj kvs")
          case False
          then have nd: "\<forall>kvs. ai \<noteq> JObj kvs" by simp
          from handled_not_dict[OF f fn sv ga e1 e2 nd h]
          obtain evs' where l: "c = Returned (Plain ''Internal Server Error'' 500)"
            "tp = Some ?tp" "gcs w2 = gcs w" "trace w2 = trace w @ evs'"
            "filter is_gcs_upload evs' = []" "set (filter is_fs_write evs') \<subseteq> {FsWrite ?tp}"
            by blast
          have "?F evs'" by (rule rm1[OF l(2) l(6)])
          moreover have "status resp = 500" by (rule st[OF l(1)]) simp
          ultimately have "?T evs' \<and> ?F evs' \<and> ?A evs'" using l cg ct by simp
          then show ?thesis by blast
        next
          case True
          then obtain kvs where d: "ai = JObj kvs" by blast
          let ?title = "case map_of kvs ''title'' of
                          None \<Rightarrow> JStr ''No title present'' | Some v \<Rightarrow> v"
          let ?description = "case map_of kvs ''description'' of
                          None \<Rightarrow> JStr ''No description present'' | Some v \<Rightarrow> v"
          have g: "\<forall>w0. fst (generative_ai en ?tp w0) = Inr ai"
            by (simp add: ga)
          have t: "py_get ai ''title'' (JStr ''No title present'') = Inr ?title"
            and ds: "py_get ai ''description'' (JStr ''No description present'') =
                     Inr ?description"
            by (simp_all add: d py_get_def)
          show ?thesis
          proof (cases "json_write_outcome en")
            case (WriteFailed e part)
            from handled_json_write_failed[OF f fn sv ga e1 e2 d WriteFailed h]
            obtain evs' where l: "c = Returned (Plain ''Internal Server Error'' 500)"
              "tp = Some ?tp" "jp = Some ?jp" "gcs w2 = gcs w" "trace w2 = trace w @ evs'"
              "filter is_gcs_upload evs' = []"
              "set (filter is_fs_write evs') \<subseteq> {FsWrite ?tp, FsWrite ?jp}"
              by blast
            have "?F evs'" by (rule rm2[OF l(2) l(3) l(7)])
            moreover have "status resp = 500" by (rule st[OF l(1)]) simp
            ultimately have "?T evs' \<and> ?F evs' \<and> ?A evs'" using l cg ct by simp
            then show ?thesis by blast
          next
            case Written
            note jw = this
            show ?thesis
            proof (cases "image_upload_fault en")
              case (Some e)
              from handled_image_failed[OF f fn sv ga e1 e2 d jw Some h]
              obtain evs' where l: "c = Returned (Plain ''File upload failed'' 500)"
                "tp = Some ?tp" "jp = Some ?jp" "gcs w2 = gcs w" "trace w2 = trace w @ evs'"
                "filter is_gcs_upload evs' = [GcsUpload (bucket_name cfg) (filename f) False]"
                "set (filter is_fs_write evs') \<subseteq> {FsWrite ?tp, FsWrite ?jp}"
                by blast
              have "?F evs'" by (rule rm2[OF l(2) l(3) l(7)])
              moreover have s5: "status resp = 500" by (rule st[OF l(1)]) simp
              moreover have "gcs w' = gcs w" using cg l(4) by simp
              with s5 l(6) f fn b have "?B evs'" by blast
              moreover have "?T evs'" using ct l(5) by simp
              ultimately have "?T evs' \<and> ?F evs' \<and> ?B evs'" by blast
              then show ?thesis by blast
            next
              case None
              note iu = this
              show ?thesis
              proof (cases "metadata_upload_fault en")
                case (Some e)
                from handled_metadata_failed[OF f fn sv ga e1 e2 d jw iu Some h]
                obtain evs' where l: "c = Returned (Plain ''File upload failed'' 500)"
                  "tp = Some ?tp" "jp = Some ?jp"
                  "gcs w2 = (gcs w)(bucket_name cfg :=
                     (gcs w (bucket_name cfg))(filename f \<mapsto>
                        (if ?tp = ?jp
                         then json_dumps en (JObj [(''title'', ?title),
                                                   (''description'', ?description)])
                         else content f)))"
                  "trace w2 = trace w @ evs'"
                  "filter is_gcs_upload evs' =
                     [GcsUpload (bucket_name cfg) (filename f) True,
                      GcsUpload (bucket_name cfg) (json_key (filename f)) False]"
                  "set (filter is_fs_write evs') \<subseteq> {FsWrite ?tp, FsWrite ?jp}"
                  by blast
                have "?F evs'" by (rule rm2[OF l(2) l(3) l(7)])
                moreover have s5: "status resp = 500" by (rule st[OF l(1)]) simp
                moreover have "gcs w' = (gcs w)(bucket_name cfg :=
                     (gcs w (bucket_name cfg))(filename f \<mapsto>
                        (if ?tp = ?jp
                         then json_dumps en (JObj [(''title'', ?title),
                                                   (''description'', ?description)])
                         else content f)))"
                  using cg l(4) by simp
                with s5 l(6) f fn b g t ds have "?B evs'" by blast
                moreover have "?T evs'" using ct l(5) by simp
                ultimately have "?T evs' \<and> ?F evs' \<and> ?B evs'" by blast
                then show ?thesis by blast
              next
                case None
                from handled_stored[OF f fn sv ga e1 e2 d jw iu None h]
                obtain evs' where l: "c = FellThrough (filename f)"
                  "tp = Some ?tp" "jp = Some ?jp"
                  "gcs w2 = (gcs w)(bucket_name cfg :=
                     (gcs w (bucket_name cfg))(filename f \<mapsto>
                        (if ?tp = ?jp
                         then json_dumps en (JObj [(''title'', ?title),
                                                   (''description'', ?description)])
                         else content f),
                        json_key (filename f) \<mapsto>
                          json_dumps en (JObj [(''title'', ?title),
                                               (''description'', ?description)])))"
                  "trace w2 = trace w @ evs'"
                  "filter is_gcs_upload evs' =
                     [GcsUpload (bucket_name cfg) (filename f) True,
                      GcsUpload (bucket_name cfg) (json_key (filename f)) True]"
                  "set (filter is_fs_write evs') \<subseteq> {FsWrite ?tp, FsWrite ?jp}"
                  by blast
                have "?F evs'" by (rule rm2[OF l(2) l(3) l(7)])
                moreover have s5: "resp = RedirectView (filename f) \<or> (\<exists>e. resp = Unhandled e)"
                  by (rule rd[OF l(1)])
                moreover have "gcs w' = (gcs w)(bucket_name cfg :=
                     (gcs w (bucket_name cfg))(filename f \<mapsto>
                        (if ?tp = ?jp
                         then json_dumps en (JObj [(''title'', ?title),
                                                   (''description'', ?description)])
                         else content f),
                        json_key (filename f) \<mapsto>
                          json_dumps en (JObj [(''title'', ?title),
                                               (''description'', ?description)])))"
                  using cg l(4) by simp
                with s5 l(6) f fn b g t ds have "?B evs'" by blast
                moreover have "?T evs'" using ct l(5) by simp
                ultimately have "?T evs' \<and> ?F evs' \<and> ?B evs'" by blast
                then show ?thesis by blast
              qed
            qed
          qed
        qed
      qed
    qed
  qed
qed

lemma new_events_append: "trace w' = trace w @ evs \<Longrightarrow> new_events w w' = evs"
  by (simp add: new_events_def)

text \<open>The same cases, read off the trace of the request.\<close>

lemma upload_storage_cases:
  assumes r: "upload cfg en files w = (resp, w')"
  shows "(filter is_gcs_upload (new_events w w') = [] \<and> gcs w' = gcs w) \<or>
     (\<exists>f. files ''image'' = Some f \<and>
        ((filter is_gcs_upload (new_events w w') =
            [GcsUpload (bucket_name cfg) (filename f) False] \<and>
          gcs w' = gcs w \<and> status resp = 500) \<or>
         (\<exists>m. filter is_gcs_upload (new_events w w') =
              [GcsUpload (bucket_name cfg) (filename f) True,
               GcsUpload (bucket_name cfg) (json_key (filename f)) False] \<and>
            gcs w' = (gcs w)(bucket_name cfg := (gcs w (bucket_name cfg))(filename f \<mapsto>
                 (if path_join ''/tmp'' (filename f) = path_join ''/tmp'' (json_key (filename f))
                  then m else content f))) \<and>
            status resp = 500) \<or>
         (\<exists>m. filter is_gcs_upload (new_events w w') =
              [GcsUpload (bucket_name cfg) (filename f) True,
               GcsUpload (bucket_name cfg) (json_key (filename f)) True] \<and>
            gcs w' = (gcs w)(bucket_name cfg := (gcs w (bucket_name cfg))(filename f \<mapsto>
                 (if path_join ''/tmp'' (filename f) = path_join ''/tmp'' (json_key (filename f))
                  then m else content f),
                 json_key (filename f) \<mapsto> m)))))"
proof -
  from upload_cases[OF r] obtain evs where tr: "trace w' = trace w @ evs"
    and c: "(filter is_gcs_upload evs = [] \<and> gcs w' = gcs w \<and> (status resp = 400 \<or> status resp = 500)) \<or>
     (\<exists>f. files ''image'' = Some f \<and> filename f \<noteq> [] \<and> truthy (bucket_name cfg) \<and>
        ((filter is_gcs_upload evs = [GcsUpload (bucket_name cfg) (filename f) False] \<and>
            gcs w' = gcs w \<and> status resp = 500) \<or>
         (\<exists>ai title description.
            filter is_gcs_upload evs =
              [GcsUpload (bucket_name cfg) (filename f) True,
               GcsUpload (bucket_name cfg) (json_key (filename f)) False] \<and>
            (\<forall>w0. fst (generative_ai en (path_join ''/tmp'' (filename f)) w0) = Inr ai) \<and>
            py_get ai ''title'' (JStr ''No title present'') = Inr title \<and>
            py_get ai ''description'' (JStr ''No description present'') = Inr description \<and>
            gcs w' = (gcs w)(bucket_name cfg := (gcs w (bucket_name cfg))(filename f \<mapsto>
                 (if path_join ''/tmp'' (filename f) = path_join ''/tmp'' (json_key (filename f))
                  then json_dumps en (JObj [(''title'', title), (''description'', description)])
                  else content f))) \<and>
            status resp = 500) \<or>
         (\<exists>ai title description.
            filter is_gcs_upload evs =
              [GcsUpload (bucket_name cfg) (filename f) True,
               GcsUpload (bucket_name cfg) (json_key (filename f)) True] \<and>
            (\<forall>w0. fst (generative_ai en (path_join ''/tmp'' (filename f)) w0) = Inr ai) \<and>
            py_get ai ''title'' (JStr ''No title present'') = Inr title \<and>
            py_get ai ''description'' (JStr ''No description present'') = Inr description \<and>
            gcs w' = (gcs w)(bucket_name cfg := (gcs w (bucket_name cfg))(filename f \<mapsto>
                 (if path_join ''/tmp'' (filename f) = path_join ''/tmp'' (json_key (filename f))
                  then json_dumps en (JObj [(''title'', title), (''description'', description)])
                  else content f),
                 json_key (filename f) \<mapsto>
                   json_dumps en (JObj [(''title'', title), (''description'', description)]))) \<and>
            (resp = RedirectView (filename f) \<or> (\<exists>e. resp = Unhandled e)))))"
    by blast
  have ne: "new_events w w' = evs" by (rule new_events_append[OF tr])
  let ?tp = "\<lambda>f. path_join ''/tmp'' (filename f)"
  let ?jp = "\<lambda>f. path_join ''/tmp'' (json_key (filename f))"
  consider
    (none) "filter is_gcs_upload evs = []" "gcs w' = gcs w"
  | (image_failed) f where "files ''image'' = Some f"
      "filter is_gcs_upload evs = [GcsUpload (bucket_name cfg) (filename f) False]"
      "gcs w' = gcs w" "status resp = 500"
  | (metadata_failed) f m where "files ''image'' = Some f"
      "filter is_gcs_upload evs =
         [GcsUpload (bucket_name cfg) (filename f) True,
          GcsUpload (bucket_name cfg) (json_key (filename f)) False]"
      "gcs w' = (gcs w)(bucket_name cfg := (gcs w (bucket_name cfg))(filename f \<mapsto>
                 (if ?tp f = ?jp f then m else content f)))"
      "status resp = 500"
  | (stored) f m where "files ''image'' = Some f"
      "filter is_gcs_upload evs =
         [GcsUpload (bucket_name cfg) (filename f) True,
          GcsUpload (bucket_name cfg) (json_key (filename f)) True]"
      "gcs w' = (gcs w)(bucket_name cfg := (gcs w (bucket_name cfg))(filename f \<mapsto>
                 (if ?tp f = ?jp f then m else content f), json_key (filename f) \<mapsto> m))"
    using c by (elim disjE exE conjE) blast+
  then show ?thesis
  proof cases
    case none
    then show ?thesis by (simp add: ne)
  next
    case (image_failed f)
    then show ?thesis unfolding ne by blast
  next
    case (metadata_failed f m)
    then show ?thesis unfolding ne by blast
  next
    case (stored f m)
    then show ?thesis unfolding ne by blast
  qed
qed

section \<open>The claims\<close>

subsection \<open>The captioning client\<close>

text \<open>
  C3. The AI captioning client never propagates an exception to its caller. For every
  image path and every behaviour of the external service, \<open>generative_ai\<close> returns a
  value. When captioning fails, that value is one of the three fixed sentinel records:
  the \<open>Upload Error\<close> record when the upload step returns no file, the
  \<open>Invalid Response\<close> record when the fence-stripped reply is not JSON, and the \<open>Error\<close>
  record when any other step raises.
\<close>

theorem generative_ai_never_raises:
  "\<exists>v w'. generative_ai en p w = (Inr v, w') \<and>
     (\<not> captioning_succeeds en p \<longrightarrow>
        v \<in> {sentinel_upload_error, sentinel_invalid_response, sentinel_error}) \<and>
     (upload_step_fails en p \<longrightarrow> v = sentinel_upload_error) \<and>
     (reply_not_json en p \<longrightarrow> v = sentinel_invalid_response) \<and>
     (other_step_raises en p \<longrightarrow> v = sentinel_error)"
  unfolding generative_ai_def generative_ai_try_def upload_to_gemini_def captioning_succeeds_def
    upload_step_fails_def reply_not_json_def other_step_raises_def is_decode_error_def
  by (auto simp: Let_def split: option.splits sum.splits exn.splits prod.splits)

text \<open>The three failures, each in a scenario where one service is down.\<close>

theorem generative_ai_never_raises_witness:
  "upload_step_fails gemini_upload_down ''/tmp/cat.jpg'' \<and>
   fst (generative_ai gemini_upload_down ''/tmp/cat.jpg'' empty_world) = Inr sentinel_upload_error \<and>
   reply_not_json gemini_not_json ''/tmp/cat.jpg'' \<and>
   fst (generative_ai gemini_not_json ''/tmp/cat.jpg'' empty_world) = Inr sentinel_invalid_response \<and>
   other_step_raises gemini_chat_down ''/tmp/cat.jpg'' \<and>
   fst (generative_ai gemini_chat_down ''/tmp/cat.jpg'' empty_world) = Inr sentinel_error"
proof -
  have h1: "upload_step_fails gemini_upload_down ''/tmp/cat.jpg''" by code_simp
  have h2: "reply_not_json gemini_not_json ''/tmp/cat.jpg''" by code_simp
  have h3: "other_step_raises gemini_chat_down ''/tmp/cat.jpg''" by code_simp
  from h1 generative_ai_never_raises[of gemini_upload_down "''/tmp/cat.jpg''" empty_world]
  have c1: "fst (generative_ai gemini_upload_down ''/tmp/cat.jpg'' empty_world) =
            Inr sentinel_upload_error" by auto
  from h2 generative_ai_never_raises[of gemini_not_json "''/tmp/cat.jpg''" empty_world]
  have c2: "fst (generative_ai gemini_not_json ''/tmp/cat.jpg'' empty_world) =
            Inr sentinel_invalid_response" by auto
  from h3 generative_ai_never_raises[of gemini_chat_down "''/tmp/cat.jpg''" empty_world]
  have c3: "fst (generative_ai gemini_chat_down ''/tmp/cat.jpg'' empty_world) =
            Inr sentinel_error" by auto
  from h1 h2 h3 c1 c2 c3 show ?thesis by blast
qed

subsection \<open>Signed URLs\<close>

text \<open>
  C8. Signed-URL generation never raises past its boundary: \<open>generate_temporary_url\<close>
  always returns. For every key that does not exist in the bucket, and for every failure
  of the signing call or of the existence check, what it returns is \<open>None\<close>.
\<close>

theorem generate_temporary_url_absent:
  "\<exists>r w'. generate_temporary_url en b k t w = (Inr r, w') \<and>
     (gcs w b k = None \<longrightarrow> r = None) \<and>
     (isl (sign_url en k t) \<longrightarrow> r = None) \<and>
     (image_exists_fault en \<noteq> None \<longrightarrow> r = None)"
  by (auto simp: generate_temporary_url_def generate_temporary_url_try_def
      split: option.splits sum.splits)

text \<open>A key that is not in the bucket, and a key that is there while signing fails.\<close>

theorem generate_temporary_url_absent_witness:
  "gcs cat_world (Some ''images'') ''dog.jpg'' = None \<and>
   fst (generate_temporary_url cat_env (Some ''images'') ''dog.jpg'' 3600 cat_world) = Inr None \<and>
   isl (sign_url signing_down ''cat.jpg'' 3600) \<and>
   fst (generate_temporary_url signing_down (Some ''images'') ''cat.jpg'' 3600 cat_world) = Inr None"
proof -
  have h1: "gcs cat_world (Some ''images'') ''dog.jpg'' = None" by code_simp
  have h2: "isl (sign_url signing_down ''cat.jpg'' 3600)" by code_simp
  from h1 generate_temporary_url_absent[of cat_env "Some ''images''" "''dog.jpg''" 3600 cat_world]
  have c1: "fst (generate_temporary_url cat_env (Some ''images'') ''dog.jpg'' 3600 cat_world) =
            Inr None" by auto
  from h2 generate_temporary_url_absent[of signing_down "Some ''images''" "''cat.jpg''" 3600 cat_world]
  have c2: "fst (generate_temporary_url signing_down (Some ''images'') ''cat.jpg'' 3600 cat_world) =
            Inr None" by auto
  from h1 h2 c1 c2 show ?thesis by blast
qed

subsection \<open>The view route\<close>






subsection \<open>The upload route\<close>

text \<open>
  C4. For every upload request with no \<open>image\<close> file part, or with an empty file name,
  the upload route answers with status 400 and leaves the world as it was: no object is
  written, no captioning call is made, nothing is added to the trace. This holds when the
  bucket name is configured; the guard on the bucket name comes first.
\<close>

theorem upload_rejects_missing_file:
  assumes "truthy (bucket_name cfg)"
    and "files ''image'' = None \<or> (\<exists>f. files ''image'' = Some f \<and> filename f = [])"
  shows "status (fst (upload cfg en files w)) = 400 \<and> snd (upload cfg en files w) = w"
  using assms by (auto simp: upload_no_file upload_empty_filename)

text \<open>A request without a file part, and one whose file part has an empty name.\<close>

theorem upload_rejects_missing_file_witness:
  "truthy (bucket_name cat_config) \<and> no_files ''image'' = None \<and>
   status (fst (upload cat_config cat_env no_files cat_world)) = 400 \<and>
   snd (upload cat_config cat_env no_files cat_world) = cat_world \<and>
   unnamed_files ''image'' = Some \<lparr>filename = [], content = []\<rparr> \<and>
   status (fst (upload cat_config cat_env unnamed_files cat_world)) = 400 \<and>
   snd (upload cat_config cat_env unnamed_files cat_world) = cat_world"
proof -
  have h1: "truthy (bucket_name cat_config)" by code_simp
  have h2: "no_files ''image'' = None" by code_simp
  have h3: "unnamed_files ''image'' = Some \<lparr>filename = [], content = []\<rparr>" by code_simp
  from h3 have h4: "unnamed_files ''image'' = None \<or>
      (\<exists>f. unnamed_files ''image'' = Some f \<and> filename f = [])" by simp
  from h2 have h5: "no_files ''image'' = None \<or>
      (\<exists>f. no_files ''image'' = Some f \<and> filename f = [])" by simp
  from upload_rejects_missing_file[where cfg = cat_config and files = no_files
        and en = cat_env and w = cat_world, OF h1 h5]
    upload_rejects_missing_file[where cfg = cat_config and files = unnamed_files
        and en = cat_env and w = cat_world, OF h1 h4] h1 h2 h3
  show ?thesis by blast
qed

text \<open>
  With the bucket name unset, the same request without a file part is answered with 500,
  not 400.
\<close>

theorem upload_unconfigured_counterexample:
  "no_files ''image'' = None \<and>
   status (fst (upload unconfigured cat_env no_files empty_world)) = 500"
  by code_simp

text \<open>
  C5. For every upload request in which the image upload or the metadata upload to the
  object store reports failure, the route answers with status 500, and what was already
  written is not rolled back: every object whose upload succeeded during the request is
  in the store when the request completes.
\<close>

theorem upload_storage_failure_500:
  assumes r: "upload cfg en files w = (resp, w')"
    and fl: "GcsUpload b k False \<in> set (new_events w w')"
  shows "status resp = 500 \<and>
         (\<forall>b' k'. GcsUpload b' k' True \<in> set (new_events w w') \<longrightarrow> gcs w' b' k' \<noteq> None)"
proof -
  define G where "G = filter is_gcs_upload (new_events w w')"
  note c = upload_storage_cases[OF r, folded G_def]
  have m: "GcsUpload b k False \<in> set G"
    using fl by (simp add: G_def is_gcs_upload_def)
  have t: "\<And>b' k'. GcsUpload b' k' True \<in> set (new_events w w') \<Longrightarrow>
             GcsUpload b' k' True \<in> set G"
    by (simp add: G_def is_gcs_upload_def)
  from c m show ?thesis
    by (auto dest!: t)
qed

text \<open>The metadata upload fails after the image upload succeeded: \<open>cat.jpg\<close> stays.\<close>

theorem upload_storage_failure_500_witness:
  "GcsUpload (Some ''images'') ''cat.json'' False
     \<in> set (new_events empty_world (snd (upload cat_config metadata_upload_down cat_files empty_world))) \<and>
   GcsUpload (Some ''images'') ''cat.jpg'' True
     \<in> set (new_events empty_world (snd (upload cat_config metadata_upload_down cat_files empty_world))) \<and>
   status (fst (upload cat_config metadata_upload_down cat_files empty_world)) = 500 \<and>
   gcs (snd (upload cat_config metadata_upload_down cat_files empty_world)) (Some ''images'') ''cat.jpg''
     \<noteq> None"
proof -
  let ?u = "upload cat_config metadata_upload_down cat_files empty_world"
  have r: "?u = (fst ?u, snd ?u)" by simp
  have h1: "GcsUpload (Some ''images'') ''cat.json'' False \<in> set (new_events empty_world (snd ?u))"
    by code_simp
  have h2: "GcsUpload (Some ''images'') ''cat.jpg'' True \<in> set (new_events empty_world (snd ?u))"
    by code_simp
  from upload_storage_failure_500[OF r h1] h1 h2 show ?thesis by blast
qed

text \<open>
  C6. On every exit path of the upload route on which no removal of the \<open>finally\<close> clause
  raises, so that the route answers with a response of its own, every local file written
  during the request (the temporary image, the temporary metadata JSON, also when the write
  was cut short) no longer exists when the request completes.
\<close>

theorem upload_removes_temp_files:
  assumes r: "upload cfg en files w = (resp, w')"
    and nr: "\<forall>e. resp \<noteq> Unhandled e"
    and wr: "FsWrite p \<in> set (new_events w w')"
  shows "fs w' p = None"
proof -
  from upload_cases[OF r] obtain evs where tr: "trace w' = trace w @ evs"
    and rm: "(\<forall>e. resp \<noteq> Unhandled e) \<longrightarrow> (\<forall>p. FsWrite p \<in> set evs \<longrightarrow> fs w' p = None)"
    by blast
  from wr new_events_append[OF tr] rm nr show ?thesis by simp
qed

text \<open>After a successful upload, and after one whose metadata upload failed.\<close>

theorem upload_removes_temp_files_witness:
  "(\<forall>e. fst (upload cat_config cat_env cat_files empty_world) \<noteq> Unhandled e) \<and>
   FsWrite ''/tmp/cat.jpg''
     \<in> set (new_events empty_world (snd (upload cat_config cat_env cat_files empty_world))) \<and>
   fs (snd (upload cat_config cat_env cat_files empty_world)) ''/tmp/cat.jpg'' = None \<and>
   (\<forall>e. fst (upload cat_config metadata_upload_down cat_files empty_world) \<noteq> Unhandled e) \<and>
   FsWrite ''/tmp/cat.json''
     \<in> set (new_events empty_world (snd (upload cat_config metadata_upload_down cat_files empty_world))) \<and>
   fs (snd (upload cat_config metadata_upload_down cat_files empty_world)) ''/tmp/cat.json'' = None"
proof -
  let ?u = "upload cat_config cat_env cat_files empty_world"
  let ?v = "upload cat_config metadata_upload_down cat_files empty_world"
  have r: "?u = (fst ?u, snd ?u)" and r': "?v = (fst ?v, snd ?v)" by simp_all
  have "fst ?u = RedirectView ''cat.jpg''" by code_simp
  then have n1: "\<forall>e. fst ?u \<noteq> Unhandled e" by simp
  have "fst ?v = Plain ''File upload failed'' 500" by code_simp
  then have n2: "\<forall>e. fst ?v \<noteq> Unhandled e" by simp
  have h1: "FsWrite ''/tmp/cat.jpg'' \<in> set (new_events empty_world (snd ?u))"
    by code_simp
  have h2: "FsWrite ''/tmp/cat.json'' \<in> set (new_events empty_world (snd ?v))"
    by code_simp
  from upload_removes_temp_files[OF r n1 h1] upload_removes_temp_files[OF r' n2 h2] h1 h2 n1 n2
  show ?thesis by blast
qed

text \<open>
  When the removal of the temporary image raises, the exception leaves the route, the
  second removal is not run, and both temporary files are still there.
\<close>

theorem upload_cleanup_raises_counterexample:
  "fst (upload cat_config remove_down cat_files empty_world) =
     Unhandled (OtherError ''Operation not permitted'') \<and>
   FsWrite ''/tmp/cat.json''
     \<in> set (new_events empty_world (snd (upload cat_config remove_down cat_files empty_world))) \<and>
   fs (snd (upload cat_config remove_down cat_files empty_world)) ''/tmp/cat.json'' = Some cat_text \<and>
   fs (snd (upload cat_config remove_down cat_files empty_world)) ''/tmp/cat.jpg'' = Some ''JPEG''"
  by code_simp




subsection \<open>Upload, then view\<close>




subsection \<open>Process initialization\<close>

text \<open>
  C2. When the storage credential has been fetched and written and the fetch of the Gemini
  API key then fails, the failure is logged and the exception is raised to the caller of
  \<open>initialize_clients\<close>. Initialization stops there: the storage client is not
  constructed.
\<close>

theorem gemini_key_failure_aborts_initialization:
  assumes "secret_client_fault ie = None"
    and "access_secret ie (secret_version_path SECRET_NAME) = Inr credential"
    and "cred_write_outcome ie = Written"
    and "gemini_key_failure ie e"
  shows "fst (initialize_clients ie w) = Inl e \<and>
         Log ERROR (''Failed to retrieve Gemini API Key: '' @ exn_str e)
           \<in> set (new_events w (snd (initialize_clients ie w))) \<and>
         StorageClientCreated \<notin> set (new_events w (snd (initialize_clients ie w)))"
  using assms
  by (auto simp: initialize_clients_def get_gcs_credentials_def gemini_key_try_def
        gemini_key_failure_def write_file_def emit_def logging_def new_events_def Let_def
      split: sum.splits option.splits)

text \<open>The secret store has the credential and lacks the Gemini key.\<close>

theorem gemini_key_failure_aborts_initialization_witness:
  "secret_client_fault gemini_key_missing = None \<and>
   access_secret gemini_key_missing (secret_version_path SECRET_NAME) = Inr ''{}'' \<and>
   cred_write_outcome gemini_key_missing = Written \<and>
   gemini_key_failure gemini_key_missing (OtherError ''404 secret not found'') \<and>
   fst (initialize_clients gemini_key_missing empty_world) = Inl (OtherError ''404 secret not found'') \<and>
   Log ERROR ''Failed to retrieve Gemini API Key: 404 secret not found''
     \<in> set (new_events empty_world (snd (initialize_clients gemini_key_missing empty_world))) \<and>
   StorageClientCreated
     \<notin> set (new_events empty_world (snd (initialize_clients gemini_key_missing empty_world)))"
proof -
  have h1: "secret_client_fault gemini_key_missing = None" by code_simp
  have h2: "access_secret gemini_key_missing (secret_version_path SECRET_NAME) = Inr ''{}''"
    by code_simp
  have h3: "cred_write_outcome gemini_key_missing = Written" by code_simp
  have h4: "gemini_key_failure gemini_key_missing (OtherError ''404 secret not found'')"
    by code_simp
  from gemini_key_failure_aborts_initialization[OF h1 h2 h3 h4, of empty_world] h1 h2 h3 h4
  show ?thesis by simp
qed

text \<open>
  In that start-up the exception leaves \<open>initialize_clients\<close> and no storage client is ever
  constructed, so none is usable afterwards.
\<close>

theorem storage_client_after_key_failure_counterexample:
  "gemini_key_failure gemini_key_missing (OtherError ''404 secret not found'') \<and>
   fst (initialize_clients gemini_key_missing empty_world) = Inl (OtherError ''404 secret not found'') \<and>
   StorageClientCreated \<notin> set (trace (snd (initialize_clients gemini_key_missing empty_world)))"
  by code_simp

end
